theory Spec2Isabelle
  imports Complex_Main "HOL-Library.Word" "HOL-Library.Sublist"
begin

unbundle bit_operations_syntax

section \<open>SpaceMouse navigation plugin: a shallow embedding\<close>

text \<open>
  The development follows \<^verbatim>\<open>spacemouse_plugin.py\<close> and \<^verbatim>\<open>settings_dialog.py\<close>.
  Python floats are modelled as \<^typ>\<open>real\<close>: division by \<^verbatim>\<open>350.0\<close>, the products of the
  pan computation and the comparisons are the exact ones, so rounding, infinities and NaN
  are outside the model. Python integers are \<^typ>\<open>int\<close> and \<^typ>\<open>nat\<close>. The bytes handed
  over by the HID library are \<^typ>\<open>8 word\<close>. The HID library, the map canvas, the settings
  store and the widgets are external: they appear as an environment record that fixes
  what each call returns or raises, and as traces of the calls the plugin issues.
\<close>

subsection \<open>Report parser: \<^verbatim>\<open>SpaceMouseThread._parse_spacemouse_data\<close>\<close>

type_synonym byte = "8 word"

text \<open>The nested helper \<^verbatim>\<open>bytes_to_int16(low, high)\<close>: the shift and the bitwise or are
  taken on unbounded integers, as Python does.\<close>

definition bytes_to_int16 :: "byte \<Rightarrow> byte \<Rightarrow> real" where
  "bytes_to_int16 low high =
     (let value0 = push_bit 8 (uint high) OR uint low;
          value1 = (if value0 \<ge> 32768 then value0 - 65536 else value0)
      in real_of_int value1 / 350)"

text \<open>The indices 0 to 6 are read only behind the length check, so no read is out of
  range.\<close>

definition parse_spacemouse_data :: "byte list \<Rightarrow> real \<times> real \<times> real" where
  "parse_spacemouse_data data =
     (if length data < 7 then (0, 0, 0)
      else let report_id = data ! 0 in
        if report_id \<noteq> 1 then (0, 0, 0)
        else let x = bytes_to_int16 (data ! 1) (data ! 2);
                 y = bytes_to_int16 (data ! 3) (data ! 4);
                 z = bytes_to_int16 (data ! 5) (data ! 6)
             in (x, y, z))"

text \<open>The encoder of the round-trip property is not part of the plugin. It is written
  from the property's words: a signed value as a little-endian pair of bytes, low byte
  first, in two's complement.\<close>

definition encode_int16_le :: "int \<Rightarrow> byte \<times> byte" where
  "encode_int16_le v =
     (let u = v mod 65536 in (word_of_int (u mod 256), word_of_int (u div 256)))"

text \<open>The signed 16-bit value of a pair of bytes, written with sums instead of bit
  operations; \<open>bytes_to_int16_signed\<close> below shows it is what \<^verbatim>\<open>bytes_to_int16\<close>
  divides by 350.\<close>

definition signed16 :: "byte \<Rightarrow> byte \<Rightarrow> int" where
  "signed16 l h =
     (if 256 * uint h + uint l \<ge> 32768 then 256 * uint h + uint l - 65536
      else 256 * uint h + uint l)"

subsection \<open>Device lookup: the enumeration loop of \<^verbatim>\<open>SpaceMouseThread.run\<close>\<close>

text \<open>A descriptor is the dictionary returned by \<^verbatim>\<open>hid.enumerate()\<close>. The two ids are
  read with \<^verbatim>\<open>device_info[...]\<close> and are always present; the two strings are read with
  \<^verbatim>\<open>.get(key, default)\<close>, so an absent key is \<^term>\<open>None\<close>.\<close>

record device_info =
  vendor_id :: nat
  product_id :: nat
  product_string :: "string option"
  manufacturer_string :: "string option"

definition dict_get :: "'a option \<Rightarrow> 'a \<Rightarrow> 'a" where
  "dict_get v dflt = (case v of None \<Rightarrow> dflt | Some x \<Rightarrow> x)"

text \<open>\<^verbatim>\<open>0x256f\<close> and \<^verbatim>\<open>0x046d\<close>.\<close>

definition VENDOR_IDS :: "nat list" where
  "VENDOR_IDS = [9583, 1133]"

text \<open>\<^verbatim>\<open>0xc62e 0xc62f 0xc631 0xc632 0xc633 0xc635 0xc636 0xc640\<close>, then
  \<^verbatim>\<open>0xc603 0xc605 0xc606 0xc621 0xc623 0xc625 0xc626 0xc627\<close> and
  \<^verbatim>\<open>0xc628 0xc629 0xc62b 0xc62e 0xc62f 0xc631 0xc632 0xc633\<close>.\<close>

definition PRODUCT_IDS :: "nat list" where
  "PRODUCT_IDS =
     [50734, 50735, 50737, 50738, 50739, 50741, 50742, 50752,
      50691, 50693, 50694, 50721, 50723, 50725, 50726, 50727,
      50728, 50729, 50731, 50734, 50735, 50737, 50738, 50739]"

text \<open>\<^verbatim>\<open>str.lower()\<close> on the characters of a \<^typ>\<open>string\<close>, which are bytes: the letters
  A to Z go to a to z, every other character stays.\<close>

definition lower_char :: "char \<Rightarrow> char" where
  "lower_char c =
     (let n = (of_char c :: nat) in if 65 \<le> n \<and> n \<le> 90 then char_of (n + 32) else c)"

definition str_lower :: "string \<Rightarrow> string" where
  "str_lower s = map lower_char s"

text \<open>Python's \<^verbatim>\<open>needle in haystack\<close> on strings: a contiguous occurrence.\<close>

definition str_in :: "string \<Rightarrow> string \<Rightarrow> bool" where
  "str_in needle haystack = sublist needle haystack"

definition is_3dconnexion :: "device_info \<Rightarrow> bool" where
  "is_3dconnexion device_info =
     (let product = str_lower (dict_get (product_string device_info) '''');
          manufacturer = str_lower (dict_get (manufacturer_string device_info) '''');
          vid = vendor_id device_info;
          pid = product_id device_info
      in str_in ''3dconnex'' manufacturer \<or>
         str_in ''space'' product \<or>
         (vid \<in> set VENDOR_IDS \<and> pid \<in> set PRODUCT_IDS))"

text \<open>The \<^verbatim>\<open>for\<close> loop with its \<^verbatim>\<open>break\<close>; \<^term>\<open>None\<close> is \<^verbatim>\<open>spacemouse_device = None\<close>
  after the loop.\<close>

fun find_spacemouse_device :: "device_info list \<Rightarrow> device_info option" where
  "find_spacemouse_device [] = None"
| "find_spacemouse_device (device_info # all_devices) =
     (if is_3dconnexion device_info then Some device_info
      else find_spacemouse_device all_devices)"

text \<open>The matching policy in the words of the specification, to compare with the loop:
  the allow-list is a set of (vendor, product) pairs, and a string matches when it
  contains the pattern after both are brought to lower case.\<close>

definition allow_list :: "(nat \<times> nat) set" where
  "allow_list = set VENDOR_IDS \<times> set PRODUCT_IDS"

definition contains_ci :: "string \<Rightarrow> string \<Rightarrow> bool" where
  "contains_ci pattern s = sublist (map lower_char pattern) (map lower_char s)"

definition matches_policy :: "device_info \<Rightarrow> bool" where
  "matches_policy d =
     (contains_ci ''3dconnex'' (dict_get (manufacturer_string d) '''') \<or>
      contains_ci ''space'' (dict_get (product_string d) '''') \<or>
      (vendor_id d, product_id d) \<in> allow_list)"

subsection \<open>Motion reader: \<^verbatim>\<open>SpaceMouseThread.run\<close>\<close>

text \<open>An exception carries its message, \<^verbatim>\<open>str(e)\<close>. \<^verbatim>\<open>except Exception\<close> catches the
  first kind only, a bare \<^verbatim>\<open>except:\<close> and \<^verbatim>\<open>finally\<close> see both.\<close>

datatype exn = Exc string | BaseExc string

text \<open>One iteration of \<^verbatim>\<open>while self.running\<close> as the environment decides it: the flag is
  found cleared by \<^verbatim>\<open>stop()\<close>, or \<^verbatim>\<open>self.device.read(64)\<close> raises, or it returns bytes
  (none when no report is waiting).\<close>

datatype poll = StopObserved | ReadRaises exn | ReadReturns "byte list"

record env =
  enumerate_result :: "exn + device_info list"
  device_result :: "exn option"
  open_result :: "exn option"
  set_nonblocking_result :: "exn option"
  polls :: "poll list"
  close_result :: "exn option"

datatype hid_call =
    HidEnumerate | HidDevice | HidOpen nat nat | HidSetNonblocking nat | HidRead nat | HidClose

datatype signal = Movement real real real | Error string

text \<open>The lines written with \<^verbatim>\<open>print\<close>, by the values they show.\<close>

datatype log_line =
    FoundLine string | ManufacturerLine string | VidPidLine nat nat
  | OpeningLine string | VidLine nat | PidLine nat | OpenedLine
  | PacketLine nat "byte list" | ReadErrorLine string | StoppedLine nat
  | ErrorLine string | ClosedLine

datatype event = Call hid_call | Print log_line | Emit signal | Sleep

text \<open>How the body of the \<^verbatim>\<open>try\<close> ends. \<^term>\<open>StillReading\<close>: every poll of the
  environment is used up and the loop has not left the reading state.\<close>

datatype completion = Returned | Raised exn | StillReading

definition no_device_msg :: string where
  "no_device_msg = ''No SpaceMouse device found. Make sure it's plugged in.''"

definition process_packet :: "byte list \<Rightarrow> nat \<Rightarrow> event list \<times> nat" where
  "process_packet data read_count =
     (if data \<noteq> [] then
        (let read_count = read_count + 1;
             dbg = (if read_count \<le> 3 then [Print (PacketLine read_count (take 8 data))] else [])
         in case parse_spacemouse_data data of
              (x, y, z) \<Rightarrow>
                (dbg @ (if \<bar>x\<bar> > 0.001 \<or> \<bar>y\<bar> > 0.001 \<or> \<bar>z\<bar> > 0.001
                        then [Emit (Movement x y z)] else []),
                 read_count))
      else ([], read_count))"

fun read_loop :: "poll list \<Rightarrow> nat \<Rightarrow> event list \<times> completion" where
  "read_loop [] read_count = ([], StillReading)"
| "read_loop (StopObserved # ps) read_count = ([Print (StoppedLine read_count)], Returned)"
| "read_loop (ReadRaises e # ps) read_count =
     (case e of
        Exc m \<Rightarrow>
          ([Call (HidRead 64), Print (ReadErrorLine m), Print (StoppedLine read_count)],
           Returned)
      | BaseExc m \<Rightarrow> ([Call (HidRead 64)], Raised e))"
| "read_loop (ReadReturns data # ps) read_count =
     (case process_packet data read_count of
        (evs, read_count') \<Rightarrow>
          (case read_loop ps read_count' of
             (rest, c) \<Rightarrow> (Call (HidRead 64) # evs @ Sleep # rest, c)))"

text \<open>The body of the outer \<^verbatim>\<open>try\<close>: the events, whether \<^verbatim>\<open>self.device\<close> was assigned,
  and how the body ended.\<close>

definition run_body :: "env \<Rightarrow> event list \<times> bool \<times> completion" where
  "run_body env =
     (case enumerate_result env of
        Inl e \<Rightarrow> ([Call HidEnumerate], False, Raised e)
      | Inr all_devices \<Rightarrow>
          (case find_spacemouse_device all_devices of
             None \<Rightarrow> ([Call HidEnumerate, Emit (Error no_device_msg)], False, Returned)
           | Some device_info \<Rightarrow>
               (let product_name = dict_get (product_string device_info) ''Unknown'';
                    vid = vendor_id device_info;
                    pid = product_id device_info;
                    pre = [Call HidEnumerate,
                           Print (FoundLine product_name),
                           Print (ManufacturerLine
                                    (dict_get (manufacturer_string device_info) ''Unknown'')),
                           Print (VidPidLine vid pid),
                           Print (OpeningLine product_name),
                           Print (VidLine vid),
                           Print (PidLine pid),
                           Call HidDevice]
                in case device_result env of
                     Some e \<Rightarrow> (pre, False, Raised e)
                   | None \<Rightarrow>
                       (case open_result env of
                          Some e \<Rightarrow> (pre @ [Call (HidOpen vid pid)], True, Raised e)
                        | None \<Rightarrow>
                            (case set_nonblocking_result env of
                               Some e \<Rightarrow>
                                 (pre @ [Call (HidOpen vid pid), Call (HidSetNonblocking 1)],
                                  True, Raised e)
                             | None \<Rightarrow>
                                 (case read_loop (polls env) 0 of
                                    (evs, c) \<Rightarrow>
                                      (pre @ [Call (HidOpen vid pid),
                                              Call (HidSetNonblocking 1),
                                              Print OpenedLine] @ evs,
                                       True, c)))))))"

text \<open>The \<^verbatim>\<open>finally\<close> block: \<^verbatim>\<open>close()\<close> is called when \<^verbatim>\<open>self.device\<close> is set, and a
  bare \<^verbatim>\<open>except: pass\<close> takes whatever it raises.\<close>

definition finally_block :: "env \<Rightarrow> bool \<Rightarrow> event list" where
  "finally_block env device_set =
     (if device_set then
        Call HidClose # (case close_result env of None \<Rightarrow> [Print ClosedLine] | Some e \<Rightarrow> [])
      else [])"

record outcome =
  trace :: "event list"
  finished :: bool
  propagated :: "exn option"

definition run :: "env \<Rightarrow> outcome" where
  "run env =
     (case run_body env of
        (tr, device_set, c) \<Rightarrow>
          (case c of
             StillReading \<Rightarrow> \<lparr>trace = tr, finished = False, propagated = None\<rparr>
           | Returned \<Rightarrow>
               \<lparr>trace = tr @ finally_block env device_set, finished = True, propagated = None\<rparr>
           | Raised (Exc m) \<Rightarrow>
               (let error_msg = ''SpaceMouse error: '' @ m
                in \<lparr>trace = tr @ [Print (ErrorLine error_msg), Emit (Error error_msg)]
                              @ finally_block env device_set,
                    finished = True, propagated = None\<rparr>)
           | Raised (BaseExc m) \<Rightarrow>
               \<lparr>trace = tr @ finally_block env device_set, finished = True,
                propagated = Some (BaseExc m)\<rparr>))"

text \<open>Projections of a trace.\<close>

fun errors_of :: "event list \<Rightarrow> string list" where
  "errors_of [] = []"
| "errors_of (Emit (Error m) # evs) = m # errors_of evs"
| "errors_of (ev # evs) = errors_of evs"

fun signals_of :: "event list \<Rightarrow> signal list" where
  "signals_of [] = []"
| "signals_of (Emit s # evs) = s # signals_of evs"
| "signals_of (ev # evs) = signals_of evs"

fun reads_of :: "event list \<Rightarrow> nat" where
  "reads_of [] = 0"
| "reads_of (Call (HidRead n) # evs) = Suc (reads_of evs)"
| "reads_of (ev # evs) = reads_of evs"

fun is_open :: "event \<Rightarrow> bool" where
  "is_open (Call (HidOpen v p)) = True"
| "is_open ev = False"

fun is_hid_call :: "event \<Rightarrow> bool" where
  "is_hid_call (Call c) = True"
| "is_hid_call ev = False"

fun is_read_returns :: "poll \<Rightarrow> bool" where
  "is_read_returns (ReadReturns data) = True"
| "is_read_returns p = False"

text \<open>The environments in which \<^verbatim>\<open>run\<close> gets as far as the read loop.\<close>

definition reaches_reading :: "env \<Rightarrow> bool" where
  "reaches_reading env =
     ((case enumerate_result env of
         Inl e \<Rightarrow> False
       | Inr all_devices \<Rightarrow> find_spacemouse_device all_devices \<noteq> None) \<and>
      device_result env = None \<and> open_result env = None \<and>
      set_nonblocking_result env = None)"

subsection \<open>Navigation transform: \<^verbatim>\<open>SpaceMousePlugin.handle_movement\<close>\<close>

record settings =
  invert_x :: bool
  invert_y :: bool
  invert_z :: bool
  swap_yz :: bool
  pan_sensitivity :: real
  zoom_sensitivity :: real
  deadzone :: real

text \<open>What \<^verbatim>\<open>handle_movement\<close> reads from the map canvas, and the calls it makes on it.\<close>

record canvas =
  extent_width :: real
  extent_height :: real
  center_x :: real
  center_y :: real

datatype canvas_call = SetCenter real real | ZoomByFactor real | Refresh

definition apply_inversions :: "settings \<Rightarrow> real \<times> real \<times> real \<Rightarrow> real \<times> real \<times> real" where
  "apply_inversions s v =
     (case v of (x, y, z) \<Rightarrow>
        (if invert_x s then - x else x,
         if invert_y s then - y else y,
         if invert_z s then - z else z))"

definition apply_deadzone :: "real \<Rightarrow> real \<times> real \<times> real \<Rightarrow> real \<times> real \<times> real" where
  "apply_deadzone dz v =
     (case v of (x, y, z) \<Rightarrow>
        (if \<bar>x\<bar> < dz then 0 else x,
         if \<bar>y\<bar> < dz then 0 else y,
         if \<bar>z\<bar> < dz then 0 else z))"

definition apply_swap :: "settings \<Rightarrow> real \<times> real \<times> real \<Rightarrow> real \<times> real \<times> real" where
  "apply_swap s v = (case v of (x, y, z) \<Rightarrow> if swap_yz s then (x, z, y) else (x, y, z))"

text \<open>The part of \<^verbatim>\<open>handle_movement\<close> after the swap: the calls on the canvas, in
  order.\<close>

definition navigate :: "settings \<Rightarrow> canvas \<Rightarrow> real \<times> real \<times> real \<Rightarrow> canvas_call list" where
  "navigate s cv v =
     (case v of (x, y, z) \<Rightarrow>
        (let width = extent_width cv;
             height = extent_height cv;
             pan_x = x * width * pan_sensitivity s;
             pan_y = - y * height * pan_sensitivity s;
             new_center = (center_x cv + pan_x, center_y cv + pan_y)
         in (if pan_x \<noteq> 0 \<or> pan_y \<noteq> 0
             then [SetCenter (fst new_center) (snd new_center)] else []) @
            (if z \<noteq> 0 then [ZoomByFactor (1 - z * zoom_sensitivity s)] else []) @
            [Refresh]))"

definition handle_movement :: "settings \<Rightarrow> canvas \<Rightarrow> real \<Rightarrow> real \<Rightarrow> real \<Rightarrow> canvas_call list" where
  "handle_movement s cv x y z =
     (case apply_deadzone (deadzone s) (apply_inversions s (x, y, z)) of
        (x, y, z) \<Rightarrow>
          if x = 0 \<and> y = 0 \<and> z = 0 then []
          else navigate s cv (apply_swap s (x, y, z)))"

text \<open>The three axes as they stand after the swap, and the two pan distances.\<close>

definition final_axes :: "settings \<Rightarrow> real \<Rightarrow> real \<Rightarrow> real \<Rightarrow> real \<times> real \<times> real" where
  "final_axes s x y z =
     apply_swap s (apply_deadzone (deadzone s) (apply_inversions s (x, y, z)))"

definition pan_dx :: "settings \<Rightarrow> canvas \<Rightarrow> real \<Rightarrow> real \<Rightarrow> real \<Rightarrow> real" where
  "pan_dx s cv x y z =
     (case final_axes s x y z of (fx, fy, fz) \<Rightarrow> fx * extent_width cv * pan_sensitivity s)"

definition pan_dy :: "settings \<Rightarrow> canvas \<Rightarrow> real \<Rightarrow> real \<Rightarrow> real \<Rightarrow> real" where
  "pan_dy s cv x y z =
     (case final_axes s x y z of (fx, fy, fz) \<Rightarrow> - fy * extent_height cv * pan_sensitivity s)"

text \<open>One axis in the words of the specification, to compare with the code: negated
  when its inversion flag is set, then set to zero when its absolute value is below the
  dead zone.\<close>

definition conditioned_axis :: "bool \<Rightarrow> real \<Rightarrow> real \<Rightarrow> real" where
  "conditioned_axis invert dz v =
     (let v' = (if invert then - v else v) in if \<bar>v'\<bar> < dz then 0 else v')"

fun is_set_center :: "canvas_call \<Rightarrow> bool" where
  "is_set_center (SetCenter a b) = True"
| "is_set_center c = False"

fun is_zoom :: "canvas_call \<Rightarrow> bool" where
  "is_zoom (ZoomByFactor f) = True"
| "is_zoom c = False"

subsection \<open>Stored settings: \<^verbatim>\<open>load_settings\<close> and \<^verbatim>\<open>save_settings\<close>\<close>

text \<open>The settings store of the host is a map from keys to stored values.
  \<^verbatim>\<open>value(key, default, type=t)\<close> gives the default for an absent key and the stored
  value converted to \<open>t\<close> otherwise; nothing in the plugin inspects the result.\<close>

datatype qvariant = QBool bool | QDouble real

type_synonym qsettings = "string \<rightharpoonup> qvariant"

definition value_bool :: "qsettings \<Rightarrow> string \<Rightarrow> bool \<Rightarrow> bool" where
  "value_bool store key dflt =
     (case store key of None \<Rightarrow> dflt | Some (QBool b) \<Rightarrow> b | Some (QDouble r) \<Rightarrow> r \<noteq> 0)"

definition value_float :: "qsettings \<Rightarrow> string \<Rightarrow> real \<Rightarrow> real" where
  "value_float store key dflt =
     (case store key of
        None \<Rightarrow> dflt
      | Some (QDouble r) \<Rightarrow> r
      | Some (QBool b) \<Rightarrow> (if b then 1 else 0))"

definition load_settings :: "qsettings \<Rightarrow> settings" where
  "load_settings store =
     \<lparr>invert_x = value_bool store ''spacemouse/invert_x'' False,
      invert_y = value_bool store ''spacemouse/invert_y'' False,
      invert_z = value_bool store ''spacemouse/invert_z'' False,
      swap_yz = value_bool store ''spacemouse/swap_yz'' True,
      pan_sensitivity = value_float store ''spacemouse/pan_sensitivity'' 0.005,
      zoom_sensitivity = value_float store ''spacemouse/zoom_sensitivity'' 0.01,
      deadzone = value_float store ''spacemouse/deadzone'' 0.05\<rparr>"

definition save_settings :: "settings \<Rightarrow> qsettings \<Rightarrow> qsettings" where
  "save_settings s store =
     store(''spacemouse/invert_x'' \<mapsto> QBool (invert_x s),
           ''spacemouse/invert_y'' \<mapsto> QBool (invert_y s),
           ''spacemouse/invert_z'' \<mapsto> QBool (invert_z s),
           ''spacemouse/swap_yz'' \<mapsto> QBool (swap_yz s),
           ''spacemouse/pan_sensitivity'' \<mapsto> QDouble (pan_sensitivity s),
           ''spacemouse/zoom_sensitivity'' \<mapsto> QDouble (zoom_sensitivity s),
           ''spacemouse/deadzone'' \<mapsto> QDouble (deadzone s))"

subsection \<open>Settings dialog: \<^verbatim>\<open>SpaceMouseSettingsDialog\<close>\<close>

text \<open>The spin box of the widget toolkit, as its documentation describes it: a value
  kept inside a range and rounded to a number of decimals. The range is remembered as it
  was given and used rounded to the decimals in force; setting the decimals rounds the
  range and the value again.\<close>

record spinbox =
  sb_actual_min :: real
  sb_actual_max :: real
  sb_minimum :: real
  sb_maximum :: real
  sb_single_step :: real
  sb_decimals :: nat
  sb_value :: real

definition sb_round :: "nat \<Rightarrow> real \<Rightarrow> real" where
  "sb_round decimals v = real_of_int (round (v * 10 ^ decimals)) / 10 ^ decimals"

definition sb_bound :: "spinbox \<Rightarrow> real \<Rightarrow> real" where
  "sb_bound sb v = (if v < sb_minimum sb then sb_minimum sb
                    else if v > sb_maximum sb then sb_maximum sb else v)"

definition new_spinbox :: spinbox where
  "new_spinbox =
     \<lparr>sb_actual_min = 0, sb_actual_max = 99.99, sb_minimum = 0, sb_maximum = 99.99,
      sb_single_step = 1, sb_decimals = 2, sb_value = 0\<rparr>"

definition setValue :: "real \<Rightarrow> spinbox \<Rightarrow> spinbox" where
  "setValue v sb = sb\<lparr>sb_value := sb_bound sb (sb_round (sb_decimals sb) v)\<rparr>"

definition setRange :: "real \<Rightarrow> real \<Rightarrow> spinbox \<Rightarrow> spinbox" where
  "setRange lo hi sb =
     (let mn = sb_round (sb_decimals sb) lo;
          mx = sb_round (sb_decimals sb) hi;
          sb' = sb\<lparr>sb_actual_min := lo, sb_actual_max := hi,
                    sb_minimum := mn, sb_maximum := (if mn < mx then mx else mn)\<rparr>
      in sb'\<lparr>sb_value := sb_bound sb' (sb_value sb')\<rparr>)"

definition setSingleStep :: "real \<Rightarrow> spinbox \<Rightarrow> spinbox" where
  "setSingleStep st sb = sb\<lparr>sb_single_step := st\<rparr>"

definition setDecimals :: "nat \<Rightarrow> spinbox \<Rightarrow> spinbox" where
  "setDecimals d sb =
     (let sb' = sb\<lparr>sb_decimals := d\<rparr>;
          sb'' = setRange (sb_actual_min sb') (sb_actual_max sb') sb'
      in setValue (sb_value sb'') sb'')"

text \<open>A click on an arrow of the spin box.\<close>

definition stepBy :: "int \<Rightarrow> spinbox \<Rightarrow> spinbox" where
  "stepBy n sb = setValue (sb_value sb + real_of_int n * sb_single_step sb) sb"

record dialog =
  dlg_settings :: settings
  invert_x_cb :: bool
  invert_y_cb :: bool
  invert_z_cb :: bool
  swap_yz_cb :: bool
  pan_sensitivity_spin :: spinbox
  zoom_sensitivity_spin :: spinbox
  deadzone_spin :: spinbox

definition default_settings :: settings where
  "default_settings =
     \<lparr>invert_x = False, invert_y = False, invert_z = False, swap_yz = True,
      pan_sensitivity = 0.005, zoom_sensitivity = 0.01, deadzone = 0.05\<rparr>"

text \<open>\<^verbatim>\<open>__init__\<close> with \<^verbatim>\<open>setup_ui\<close>: the widgets as they are configured there, in the
  order of the calls. The labels, the layouts and the explanation text carry no
  setting and are left out.\<close>

definition setup_ui :: dialog where
  "setup_ui =
     \<lparr>dlg_settings = default_settings,
      invert_x_cb = False, invert_y_cb = False, invert_z_cb = False,
      swap_yz_cb = True,
      pan_sensitivity_spin =
        setValue 0.005 (setDecimals 3 (setSingleStep 0.001 (setRange 0.001 0.1 new_spinbox))),
      zoom_sensitivity_spin =
        setValue 0.01 (setDecimals 3 (setSingleStep 0.001 (setRange 0.001 0.1 new_spinbox))),
      deadzone_spin =
        setValue 0.05 (setDecimals 2 (setSingleStep 0.01 (setRange 0.0 0.2 new_spinbox)))\<rparr>"

text \<open>\<^verbatim>\<open>get_settings\<close> writes the widgets into the dictionary it holds and returns
  that dictionary.\<close>

definition get_settings :: "dialog \<Rightarrow> settings" where
  "get_settings d =
     (dlg_settings d)
       \<lparr>invert_x := invert_x_cb d, invert_y := invert_y_cb d, invert_z := invert_z_cb d,
        swap_yz := swap_yz_cb d,
        pan_sensitivity := sb_value (pan_sensitivity_spin d),
        zoom_sensitivity := sb_value (zoom_sensitivity_spin d),
        deadzone := sb_value (deadzone_spin d)\<rparr>"

definition set_settings :: "settings \<Rightarrow> dialog \<Rightarrow> dialog" where
  "set_settings s d =
     d\<lparr>dlg_settings := s,
       invert_x_cb := invert_x s, invert_y_cb := invert_y s, invert_z_cb := invert_z s,
       swap_yz_cb := swap_yz s,
       pan_sensitivity_spin := setValue (pan_sensitivity s) (pan_sensitivity_spin d),
       zoom_sensitivity_spin := setValue (zoom_sensitivity s) (zoom_sensitivity_spin d),
       deadzone_spin := setValue (deadzone s) (deadzone_spin d)\<rparr>"

definition reset_to_defaults :: "dialog \<Rightarrow> dialog" where
  "reset_to_defaults d =
     d\<lparr>invert_x_cb := False, invert_y_cb := False, invert_z_cb := False,
       swap_yz_cb := True,
       pan_sensitivity_spin := setValue 0.005 (pan_sensitivity_spin d),
       zoom_sensitivity_spin := setValue 0.01 (zoom_sensitivity_spin d),
       deadzone_spin := setValue 0.05 (deadzone_spin d)\<rparr>"

text \<open>What can happen to an open dialog: the three methods above, and the user
  working the widgets (a check box is clicked, a value is typed into a spin box, an
  arrow of a spin box is clicked).\<close>

datatype dialog_op =
    SetSettings settings | ResetToDefaults | GetSettings
  | ClickInvertX | ClickInvertY | ClickInvertZ | ClickSwapYZ
  | TypePan real | TypeZoom real | TypeDeadzone real
  | StepPan int | StepZoom int | StepDeadzone int

fun dialog_step :: "dialog \<Rightarrow> dialog_op \<Rightarrow> dialog" where
  "dialog_step d (SetSettings s) = set_settings s d"
| "dialog_step d ResetToDefaults = reset_to_defaults d"
| "dialog_step d GetSettings = d\<lparr>dlg_settings := get_settings d\<rparr>"
| "dialog_step d ClickInvertX = d\<lparr>invert_x_cb := \<not> invert_x_cb d\<rparr>"
| "dialog_step d ClickInvertY = d\<lparr>invert_y_cb := \<not> invert_y_cb d\<rparr>"
| "dialog_step d ClickInvertZ = d\<lparr>invert_z_cb := \<not> invert_z_cb d\<rparr>"
| "dialog_step d ClickSwapYZ = d\<lparr>swap_yz_cb := \<not> swap_yz_cb d\<rparr>"
| "dialog_step d (TypePan v) = d\<lparr>pan_sensitivity_spin := setValue v (pan_sensitivity_spin d)\<rparr>"
| "dialog_step d (TypeZoom v) = d\<lparr>zoom_sensitivity_spin := setValue v (zoom_sensitivity_spin d)\<rparr>"
| "dialog_step d (TypeDeadzone v) = d\<lparr>deadzone_spin := setValue v (deadzone_spin d)\<rparr>"
| "dialog_step d (StepPan n) = d\<lparr>pan_sensitivity_spin := stepBy n (pan_sensitivity_spin d)\<rparr>"
| "dialog_step d (StepZoom n) = d\<lparr>zoom_sensitivity_spin := stepBy n (zoom_sensitivity_spin d)\<rparr>"
| "dialog_step d (StepDeadzone n) = d\<lparr>deadzone_spin := stepBy n (deadzone_spin d)\<rparr>"

definition dialog_run :: "dialog_op list \<Rightarrow> dialog" where
  "dialog_run ops = foldl dialog_step setup_ui ops"

text \<open>The range the claim asks of a configuration, and the range the widgets keep.\<close>

definition config_in_range :: "real \<Rightarrow> settings \<Rightarrow> bool" where
  "config_in_range upper s =
     (0 < pan_sensitivity s \<and> pan_sensitivity s \<le> upper \<and>
      0 < zoom_sensitivity s \<and> zoom_sensitivity s \<le> upper \<and>
      0 \<le> deadzone s \<and> deadzone s < 1)"

definition widget_range :: "settings \<Rightarrow> bool" where
  "widget_range s =
     (0.001 \<le> pan_sensitivity s \<and> pan_sensitivity s \<le> 0.1 \<and>
      0.001 \<le> zoom_sensitivity s \<and> zoom_sensitivity s \<le> 0.1 \<and>
      0 \<le> deadzone s \<and> deadzone s \<le> 0.2)"

text \<open>\<^verbatim>\<open>SpaceMousePlugin.show_settings\<close>: a fresh dialog is given the current settings,
  the user works it, and the read-back replaces the settings when the dialog is
  accepted.\<close>

definition show_settings :: "settings \<Rightarrow> dialog_op list \<Rightarrow> bool \<Rightarrow> settings" where
  "show_settings s ops accepted =
     (let d = foldl dialog_step (set_settings s setup_ui) ops
      in if accepted then get_settings d else s)"

text \<open>The invariant the dialog keeps: every spin box has the range given to it in
  \<^verbatim>\<open>setup_ui\<close> and a value inside it.\<close>

definition spin_ok :: "real \<Rightarrow> real \<Rightarrow> spinbox \<Rightarrow> bool" where
  "spin_ok lo hi sb =
     (sb_minimum sb = lo \<and> sb_maximum sb = hi \<and> lo \<le> sb_value sb \<and> sb_value sb \<le> hi)"

definition dialog_ok :: "dialog \<Rightarrow> bool" where
  "dialog_ok d =
     (spin_ok 0.001 0.1 (pan_sensitivity_spin d) \<and>
      spin_ok 0.001 0.1 (zoom_sensitivity_spin d) \<and>
      spin_ok 0 0.2 (deadzone_spin d))"

subsection \<open>Sample inputs\<close>

text \<open>Concrete descriptors, a configuration and a canvas, at which the theorems
  below are instantiated.\<close>

definition keyboard :: device_info where
  "keyboard = \<lparr>vendor_id = 1118, product_id = 1957, product_string = Some ''Wired Keyboard'',
     manufacturer_string = Some ''Contoso''\<rparr>"

definition navigator :: device_info where
  "navigator = \<lparr>vendor_id = 1, product_id = 2, product_string = Some ''SpaceNavigator'',
     manufacturer_string = None\<rparr>"

definition listed :: device_info where
  "listed = \<lparr>vendor_id = 9583, product_id = 50691, product_string = None,
     manufacturer_string = None\<rparr>"

definition cfg :: settings where
  "cfg = \<lparr>invert_x = True, invert_y = False, invert_z = False, swap_yz = True,
           pan_sensitivity = 0.005, zoom_sensitivity = 0.01, deadzone = 0.05\<rparr>"

definition view :: canvas where
  "view = \<lparr>extent_width = 1000, extent_height = 500, center_x = 10, center_y = 20\<rparr>"

text \<open>Two environments of the motion reader: in both the second enumerated device is
  opened; in the first the stop flag ends the loop and \<^verbatim>\<open>close()\<close> raises, in the second
  the second read raises.\<close>

definition stop_env :: env where
  "stop_env =
     \<lparr>enumerate_result = Inr [keyboard, navigator], device_result = None, open_result = None,
      set_nonblocking_result = None,
      polls = [ReadReturns [1, 100, 0, 0, 0, 0, 0], StopObserved],
      close_result = Some (Exc ''close failed'')\<rparr>"

definition read_failure_env :: env where
  "read_failure_env =
     \<lparr>enumerate_result = Inr [keyboard, navigator], device_result = None, open_result = None,
      set_nonblocking_result = None,
      polls = [ReadReturns [1, 100, 0, 0, 0, 0, 0], ReadRaises (Exc ''read failed''),
               ReadReturns [1, 100, 0, 0, 0, 0, 0]],
      close_result = None\<rparr>"

text \<open>A settings store in which the key of the pan sensitivity holds \<open>-1\<close>.\<close>

definition bad_store :: qsettings where
  "bad_store = [''spacemouse/pan_sensitivity'' \<mapsto> QDouble (- 1)]"

section \<open>Properties\<close>

subsection \<open>Report parser\<close>

lemma shift_or_bytes: "push_bit 8 (uint (h::byte)) OR uint (l::byte) = 256 * uint h + uint l"
proof -
  have "push_bit 8 (uint h) + uint l = push_bit 8 (uint h) OR uint l"
    by (rule disjunctive_add) (auto simp: bit_simps dest: bit_imp_le_length)
  then show ?thesis by (simp add: push_bit_eq_mult)
qed

lemma uint_byte_bounds: "0 \<le> uint (b::byte) \<and> uint b < 256"
  using uint_lt2p [of b] by simp

lemma bytes_to_int16_signed: "bytes_to_int16 l h = real_of_int (signed16 l h) / 350"
  by (simp add: bytes_to_int16_def signed16_def shift_or_bytes Let_def)

lemma signed_range_int:
  fixes a b :: int
  assumes "0 \<le> a" "a < 256" "0 \<le> b" "b < 256"
  shows "- 32768 \<le> (if 256 * b + a \<ge> 32768 then 256 * b + a - 65536 else 256 * b + a) \<and>
         (if 256 * b + a \<ge> 32768 then 256 * b + a - 65536 else 256 * b + a) \<le> 32767"
  using assms by auto

lemma signed16_range: "- 32768 \<le> signed16 l h \<and> signed16 l h \<le> 32767"
  unfolding signed16_def by (rule signed_range_int) (simp_all add: uint_byte_bounds)

lemma bytes_to_int16_abs: "\<bar>bytes_to_int16 l h\<bar> \<le> 32768 / 350"
proof -
  have "\<bar>signed16 l h\<bar> \<le> 32768" using signed16_range [of l h] by linarith
  then have "\<bar>real_of_int (signed16 l h)\<bar> \<le> 32768" by linarith
  then show ?thesis by (simp add: bytes_to_int16_signed)
qed

lemma uint_byte_of_int: "uint (word_of_int k :: byte) = k mod 256"
  by (simp add: uint_word_of_int)

lemma encode_low: "uint (fst (encode_int16_le v)) = (v mod 65536) mod 256"
  by (simp add: encode_int16_le_def uint_byte_of_int Let_def)

lemma encode_high: "uint (snd (encode_int16_le v)) = (v mod 65536) div 256"
proof -
  have "(v mod 65536) div 256 < 256" "0 \<le> (v mod 65536) div 256" by simp_all
  then show ?thesis by (simp add: encode_int16_le_def uint_byte_of_int Let_def)
qed

lemma signed16_encode:
  assumes "- 32768 \<le> v" "v \<le> 32767"
  shows "signed16 (fst (encode_int16_le v)) (snd (encode_int16_le v)) = v"
proof -
  have e: "256 * uint (snd (encode_int16_le v)) + uint (fst (encode_int16_le v)) = v mod 65536"
    unfolding encode_low encode_high by simp
  show ?thesis
  proof (cases "0 \<le> v")
    case True
    with assms have "v mod 65536 = v" by simp
    with e True assms show ?thesis by (simp add: signed16_def)
  next
    case False
    with assms have "v mod 65536 = v + 65536"
      by (simp add: int_mod_pos_eq [of _ _ "-1"] )
    with e False assms show ?thesis by (simp add: signed16_def)
  qed
qed

lemma bytes_to_int16_encode:
  "- 32768 \<le> v \<Longrightarrow> v \<le> 32767 \<Longrightarrow>
     bytes_to_int16 (fst (encode_int16_le v)) (snd (encode_int16_le v)) = real_of_int v / 350"
  by (simp add: bytes_to_int16_signed signed16_encode)

text \<open>C4: a report shorter than 7 bytes parses to the zero vector, and so does a
  report of 7 bytes or more whose first byte, the kind tag, is not 1, whatever the other
  bytes are.\<close>

theorem parse_ignored:
  "length data < 7 \<or> (7 \<le> length data \<and> data ! 0 \<noteq> 1) \<Longrightarrow>
     parse_spacemouse_data data = (0, 0, 0)"
  by (auto simp: parse_spacemouse_data_def)

theorem parse_ignored_witness:
  "length [1, 2, 3 :: byte] < 7 \<and> parse_spacemouse_data [1, 2, 3] = (0, 0, 0) \<and>
   7 \<le> length [2, 100, 0, 7, 7, 255, 255, 9 :: byte] \<and>
   parse_spacemouse_data [2, 100, 0, 7, 7, 255, 255, 9] = (0, 0, 0)"
  using parse_ignored [of "[1, 2, 3]"] parse_ignored [of "[2, 100, 0, 7, 7, 255, 255, 9]"]
  by simp

text \<open>C5: signed values \<open>vx\<close>, \<open>vy\<close>, \<open>vz\<close> between \<open>-32768\<close> and \<open>32767\<close>, each
  encoded as a little-endian pair of bytes and placed at bytes 1-2, 3-4 and 5-6 of a
  report with tag 1 (of length 7 or more: \<open>rest\<close> is arbitrary), parse to \<open>vx / 350\<close>,
  \<open>vy / 350\<close> and \<open>vz / 350\<close>. With floats as reals the equality is exact.\<close>

theorem parse_roundtrip:
  assumes "- 32768 \<le> vx" "vx \<le> 32767" "- 32768 \<le> vy" "vy \<le> 32767"
    "- 32768 \<le> vz" "vz \<le> 32767"
  shows "parse_spacemouse_data
           (1 # fst (encode_int16_le vx) # snd (encode_int16_le vx)
              # fst (encode_int16_le vy) # snd (encode_int16_le vy)
              # fst (encode_int16_le vz) # snd (encode_int16_le vz) # rest) =
         (real_of_int vx / 350, real_of_int vy / 350, real_of_int vz / 350)"
  using assms by (simp add: parse_spacemouse_data_def bytes_to_int16_encode)

theorem parse_roundtrip_witness:
  "encode_int16_le (- 2) = (254, 255) \<and> encode_int16_le 100 = (100, 0) \<and>
   encode_int16_le (- 32768) = (0, 128) \<and>
   parse_spacemouse_data [1, 254, 255, 100, 0, 0, 128, 9] = (- 2 / 350, 100 / 350, - 32768 / 350)"
proof -
  have e: "encode_int16_le (- 2) = (254, 255)" "encode_int16_le 100 = (100, 0)"
    "encode_int16_le (- 32768) = (0, 128)"
    by (simp_all add: encode_int16_le_def)
  show ?thesis
    using parse_roundtrip [of "- 2" 100 "- 32768" "[9]"] by (simp add: e)
qed

text \<open>C10: for every byte sequence each axis of the parsed vector is at most
  \<open>32768 / 350\<close> in absolute value. Nothing is clamped: the report in the second part
  reaches the bound on x and has y far above 1.\<close>

theorem parse_bounded:
  "(case parse_spacemouse_data data of
      (x, y, z) \<Rightarrow> \<bar>x\<bar> \<le> 32768 / 350 \<and> \<bar>y\<bar> \<le> 32768 / 350 \<and> \<bar>z\<bar> \<le> 32768 / 350) \<and>
   parse_spacemouse_data [1, 0, 128, 255, 127, 0, 0] = (- (32768 / 350), 32767 / 350, 0)"
proof -
  have "parse_spacemouse_data [1, 0, 128, 255, 127, 0, 0] = (- (32768 / 350), 32767 / 350, 0)"
    by (simp add: parse_spacemouse_data_def bytes_to_int16_def)
  moreover have "case parse_spacemouse_data data of
      (x, y, z) \<Rightarrow> \<bar>x\<bar> \<le> 32768 / 350 \<and> \<bar>y\<bar> \<le> 32768 / 350 \<and> \<bar>z\<bar> \<le> 32768 / 350"
  proof -
    have b: "\<bar>bytes_to_int16 l h\<bar> * 175 \<le> 16384" for l h
      using bytes_to_int16_abs [of l h] by simp
    show ?thesis by (simp add: parse_spacemouse_data_def b Let_def)
  qed
  ultimately show ?thesis by simp
qed

subsection \<open>Device lookup\<close>

lemma is_3dconnexion_policy: "is_3dconnexion d = matches_policy d"
  by (simp add: is_3dconnexion_def matches_policy_def contains_ci_def str_in_def str_lower_def
      allow_list_def Let_def lower_char_def)

lemma find_None_iff:
  "find_spacemouse_device ds = None \<longleftrightarrow> (\<forall>d\<in>set ds. \<not> is_3dconnexion d)"
  by (induction ds) auto

lemma find_Some_iff:
  "find_spacemouse_device ds = Some d \<longleftrightarrow>
     (\<exists>pre post. ds = pre @ d # post \<and> is_3dconnexion d \<and> (\<forall>e\<in>set pre. \<not> is_3dconnexion e))"
proof (induction ds)
  case Nil
  then show ?case by simp
next
  case (Cons a ds)
  show ?case
  proof (cases "is_3dconnexion a")
    case True
    have "a = d \<longleftrightarrow> (\<exists>pre post. a # ds = pre @ d # post \<and> is_3dconnexion d \<and>
                           (\<forall>e\<in>set pre. \<not> is_3dconnexion e))"
    proof
      assume "a = d"
      with True have "a # ds = [] @ d # ds \<and> is_3dconnexion d \<and> (\<forall>e\<in>set []. \<not> is_3dconnexion e)"
        by simp
      then show "\<exists>pre post. a # ds = pre @ d # post \<and> is_3dconnexion d \<and>
                           (\<forall>e\<in>set pre. \<not> is_3dconnexion e)" by blast
    next
      assume "\<exists>pre post. a # ds = pre @ d # post \<and> is_3dconnexion d \<and>
                           (\<forall>e\<in>set pre. \<not> is_3dconnexion e)"
      then obtain pre post where p: "a # ds = pre @ d # post" "\<forall>e\<in>set pre. \<not> is_3dconnexion e"
        by blast
      show "a = d"
      proof (cases pre)
        case Nil
        with p show ?thesis by simp
      next
        case (Cons b pre')
        with p True show ?thesis by auto
      qed
    qed
    with True show ?thesis by simp
  next
    case False
    have "(\<exists>pre post. ds = pre @ d # post \<and> is_3dconnexion d \<and> (\<forall>e\<in>set pre. \<not> is_3dconnexion e))
        \<longleftrightarrow> (\<exists>pre post. a # ds = pre @ d # post \<and> is_3dconnexion d \<and>
                           (\<forall>e\<in>set pre. \<not> is_3dconnexion e))" (is "?L \<longleftrightarrow> ?R")
    proof
      assume ?L
      then obtain pre post where "ds = pre @ d # post" "is_3dconnexion d"
        "\<forall>e\<in>set pre. \<not> is_3dconnexion e" by blast
      with False have "a # ds = (a # pre) @ d # post \<and> is_3dconnexion d \<and>
          (\<forall>e\<in>set (a # pre). \<not> is_3dconnexion e)" by simp
      then show ?R by blast
    next
      assume ?R
      then obtain pre post where p: "a # ds = pre @ d # post" "is_3dconnexion d"
        "\<forall>e\<in>set pre. \<not> is_3dconnexion e" by blast
      show ?L
      proof (cases pre)
        case Nil
        with p False show ?thesis by simp
      next
        case (Cons b pre')
        with p have "ds = pre' @ d # post \<and> is_3dconnexion d \<and> (\<forall>e\<in>set pre'. \<not> is_3dconnexion e)"
          by simp
        then show ?thesis by blast
      qed
    qed
    with False Cons.IH show ?thesis by simp
  qed
qed

text \<open>C2: the lookup scans the enumeration in its order and returns the first
  descriptor that matches the policy: the manufacturer contains \<open>3dconnex\<close> or the product
  contains \<open>space\<close>, both without regard to case, or the pair of ids is in the allow-list.
  It returns \<^term>\<open>None\<close> exactly when no descriptor matches. The allow-list of the code is
  the product of its two id lists: every listed vendor with every listed product.\<close>

theorem find_first_match:
  "(find_spacemouse_device ds = None \<longleftrightarrow> (\<forall>d\<in>set ds. \<not> matches_policy d)) \<and>
   (find_spacemouse_device ds = Some d \<longleftrightarrow>
      (\<exists>pre post. ds = pre @ d # post \<and> matches_policy d \<and>
                  (\<forall>e\<in>set pre. \<not> matches_policy e)))"
  using find_None_iff [of ds] find_Some_iff [of ds d] by (simp add: is_3dconnexion_policy)

lemma keyboard_no_match: "\<not> matches_policy keyboard"
  by (simp add: matches_policy_def keyboard_def contains_ci_def dict_get_def lower_char_def
      allow_list_def VENDOR_IDS_def PRODUCT_IDS_def sublist_Cons_right)

lemma navigator_match: "matches_policy navigator"
  by code_simp

lemma listed_match: "matches_policy listed"
  by (simp add: matches_policy_def listed_def contains_ci_def dict_get_def lower_char_def
      allow_list_def VENDOR_IDS_def PRODUCT_IDS_def sublist_Cons_right)

theorem find_first_match_witness:
  "find_spacemouse_device [keyboard, navigator, listed] = Some navigator \<and>
   find_spacemouse_device [keyboard, keyboard] = None"
proof -
  have "[keyboard, navigator, listed] = [keyboard] @ navigator # [listed] \<and>
        matches_policy navigator \<and> (\<forall>e\<in>set [keyboard]. \<not> matches_policy e)"
    by (simp add: keyboard_no_match navigator_match)
  then have "find_spacemouse_device [keyboard, navigator, listed] = Some navigator"
    using find_first_match [of "[keyboard, navigator, listed]" navigator] by blast
  moreover have "find_spacemouse_device [keyboard, keyboard] = None"
    using find_first_match [of "[keyboard, keyboard]" navigator] by (simp add: keyboard_no_match)
  ultimately show ?thesis by simp
qed

subsection \<open>Navigation transform\<close>

lemma handle_movement_axes:
  "handle_movement s cv x y z =
     (if apply_deadzone (deadzone s) (apply_inversions s (x, y, z)) = (0, 0, 0) then []
      else navigate s cv (final_axes s x y z))"
  by (simp add: handle_movement_def final_axes_def split: prod.splits)

lemma navigate_not_Nil: "navigate s cv v \<noteq> []"
  by (simp add: navigate_def Let_def split: prod.splits)

lemma deadzone_zero_iff:
  "apply_deadzone (deadzone s) (apply_inversions s (x, y, z)) = (0, 0, 0) \<longleftrightarrow>
     (\<bar>x\<bar> < deadzone s \<or> x = 0) \<and> (\<bar>y\<bar> < deadzone s \<or> y = 0) \<and> (\<bar>z\<bar> < deadzone s \<or> z = 0)"
  by (auto simp: apply_deadzone_def apply_inversions_def)

lemma conditioned_axes:
  "apply_deadzone (deadzone s) (apply_inversions s (x, y, z)) =
     (conditioned_axis (invert_x s) (deadzone s) x,
      conditioned_axis (invert_y s) (deadzone s) y,
      conditioned_axis (invert_z s) (deadzone s) z)"
  by (simp add: apply_deadzone_def apply_inversions_def conditioned_axis_def Let_def)

lemma conditioned_axis_zero_iff: "conditioned_axis i dz v = 0 \<longleftrightarrow> \<bar>v\<bar> < dz \<or> v = 0"
  by (auto simp: conditioned_axis_def Let_def)

text \<open>C6: \<^verbatim>\<open>handle_movement\<close> first negates each axis whose inversion flag is set, then
  sets to zero each axis whose absolute value, after the inversion, is below the dead
  zone; if the three axes are then all zero it makes no call on the canvas (no pan, no
  zoom, no refresh), and otherwise it goes on with exactly these three values. It makes
  no call exactly when each axis is below the dead zone in absolute value or is zero, in
  particular whenever all three are below the dead zone.\<close>

theorem deadzone_noop:
  "apply_inversions s (x, y, z) =
     (if invert_x s then - x else x, if invert_y s then - y else y,
      if invert_z s then - z else z) \<and>
   apply_deadzone (deadzone s) (apply_inversions s (x, y, z)) =
     (conditioned_axis (invert_x s) (deadzone s) x,
      conditioned_axis (invert_y s) (deadzone s) y,
      conditioned_axis (invert_z s) (deadzone s) z) \<and>
   handle_movement s cv x y z =
     (if conditioned_axis (invert_x s) (deadzone s) x = 0 \<and>
         conditioned_axis (invert_y s) (deadzone s) y = 0 \<and>
         conditioned_axis (invert_z s) (deadzone s) z = 0
      then []
      else navigate s cv
             (apply_swap s
                (conditioned_axis (invert_x s) (deadzone s) x,
                 conditioned_axis (invert_y s) (deadzone s) y,
                 conditioned_axis (invert_z s) (deadzone s) z))) \<and>
   (handle_movement s cv x y z = [] \<longleftrightarrow>
      apply_deadzone (deadzone s) (apply_inversions s (x, y, z)) = (0, 0, 0)) \<and>
   (apply_deadzone (deadzone s) (apply_inversions s (x, y, z)) = (0, 0, 0) \<longleftrightarrow>
      (\<bar>x\<bar> < deadzone s \<or> x = 0) \<and> (\<bar>y\<bar> < deadzone s \<or> y = 0) \<and>
      (\<bar>z\<bar> < deadzone s \<or> z = 0)) \<and>
   (\<bar>x\<bar> < deadzone s \<and> \<bar>y\<bar> < deadzone s \<and> \<bar>z\<bar> < deadzone s \<longrightarrow>
      handle_movement s cv x y z = [])"
proof -
  have 1: "apply_inversions s (x, y, z) =
     (if invert_x s then - x else x, if invert_y s then - y else y,
      if invert_z s then - z else z)"
    by (simp add: apply_inversions_def)
  note 2 = conditioned_axes [of s x y z]
  have 3: "handle_movement s cv x y z =
     (if conditioned_axis (invert_x s) (deadzone s) x = 0 \<and>
         conditioned_axis (invert_y s) (deadzone s) y = 0 \<and>
         conditioned_axis (invert_z s) (deadzone s) z = 0
      then []
      else navigate s cv
             (apply_swap s
                (conditioned_axis (invert_x s) (deadzone s) x,
                 conditioned_axis (invert_y s) (deadzone s) y,
                 conditioned_axis (invert_z s) (deadzone s) z)))"
    unfolding handle_movement_def 2 by simp
  have 4: "handle_movement s cv x y z = [] \<longleftrightarrow>
      apply_deadzone (deadzone s) (apply_inversions s (x, y, z)) = (0, 0, 0)"
    by (simp add: handle_movement_axes navigate_not_Nil)
  note 5 = deadzone_zero_iff [of s x y z]
  from 4 5 have 6: "\<bar>x\<bar> < deadzone s \<and> \<bar>y\<bar> < deadzone s \<and> \<bar>z\<bar> < deadzone s \<longrightarrow>
      handle_movement s cv x y z = []"
    by simp
  from 1 2 3 4 5 6 show ?thesis by (intro conjI)
qed

theorem deadzone_noop_witness:
  "\<bar>1 / 25 :: real\<bar> < deadzone cfg \<and> \<bar>- (3 / 100) :: real\<bar> < deadzone cfg \<and>
   \<bar>1 / 100 :: real\<bar> < deadzone cfg \<and>
   handle_movement cfg view (1 / 25) (- (3 / 100)) (1 / 100) = [] \<and>
   handle_movement cfg view (1 / 25) (- (3 / 100)) (1 / 20) \<noteq> [] \<and>
   handle_movement (cfg\<lparr>invert_y := True, invert_z := True\<rparr>) view (1 / 2) (1 / 100) (1 / 5) =
     [SetCenter (15 / 2) (41 / 2), Refresh]"
proof -
  let ?c = "cfg\<lparr>invert_y := True, invert_z := True\<rparr>"
  have c: "invert_x ?c" "invert_y ?c" "invert_z ?c" "swap_yz ?c" "deadzone ?c = 1 / 20"
    "pan_sensitivity ?c = 1 / 200" "zoom_sensitivity ?c = 1 / 100"
    by (simp_all add: cfg_def)
  have a: "conditioned_axis True (1 / 20) (1 / 2) = - (1 / 2)"
    "conditioned_axis True (1 / 20) (1 / 100) = 0"
    "conditioned_axis True (1 / 20) (1 / 5) = - (1 / 5)"
    by (simp_all add: conditioned_axis_def)
  have "handle_movement ?c view (1 / 2) (1 / 100) (1 / 5) =
     [SetCenter (15 / 2) (41 / 2), Refresh]"
    using deadzone_noop [of ?c "1 / 2" "1 / 100" "1 / 5" view]
    by (simp add: c a apply_swap_def navigate_def view_def Let_def)
  moreover have "handle_movement cfg view (1 / 25) (- (3 / 100)) (1 / 100) = []"
  proof -
    have "\<bar>1 / 25\<bar> < deadzone cfg \<and> \<bar>- (3 / 100)\<bar> < deadzone cfg \<and> \<bar>1 / 100\<bar> < deadzone cfg \<longrightarrow>
      handle_movement cfg view (1 / 25) (- (3 / 100)) (1 / 100) = []"
      using deadzone_noop [of cfg "1 / 25" "- (3 / 100)" "1 / 100" view]
      by (rule conjunct2 [OF conjunct2 [OF conjunct2 [OF conjunct2 [OF conjunct2]]]])
    then show ?thesis by (simp add: cfg_def)
  qed
  moreover have "handle_movement cfg view (1 / 25) (- (3 / 100)) (1 / 20) \<noteq> []"
  proof -
    note t = deadzone_noop [of cfg "1 / 25" "- (3 / 100)" "1 / 20" view]
    have d: "handle_movement cfg view (1 / 25) (- (3 / 100)) (1 / 20) = [] \<longleftrightarrow>
      apply_deadzone (deadzone cfg) (apply_inversions cfg (1 / 25, - (3 / 100), 1 / 20)) = (0, 0, 0)"
      using t by (rule conjunct1 [OF conjunct2 [OF conjunct2 [OF conjunct2]]])
    have e: "apply_deadzone (deadzone cfg) (apply_inversions cfg (1 / 25, - (3 / 100), 1 / 20)) = (0, 0, 0) \<longleftrightarrow>
      (\<bar>1 / 25\<bar> < deadzone cfg \<or> (1 / 25 :: real) = 0) \<and>
      (\<bar>- (3 / 100)\<bar> < deadzone cfg \<or> (- (3 / 100) :: real) = 0) \<and>
      (\<bar>1 / 20\<bar> < deadzone cfg \<or> (1 / 20 :: real) = 0)"
      using t by (rule conjunct1 [OF conjunct2 [OF conjunct2 [OF conjunct2 [OF conjunct2]]]])
    show ?thesis unfolding d e by (simp add: cfg_def)
  qed
  ultimately show ?thesis by (simp add: cfg_def)
qed

lemma inversions_swap_irrelevant:
  "apply_inversions (s\<lparr>swap_yz := b\<rparr>) v = apply_inversions s v"
  by (simp add: apply_inversions_def)

lemma handle_movement_swapped:
  assumes "apply_deadzone (deadzone s) (apply_inversions s (x, y, z)) = (a, b, c)"
  shows "handle_movement (s\<lparr>swap_yz := True\<rparr>) cv x y z =
          (if a = 0 \<and> b = 0 \<and> c = 0 then []
           else (if a * extent_width cv * pan_sensitivity s \<noteq> 0 \<or>
                    - c * extent_height cv * pan_sensitivity s \<noteq> 0
                 then [SetCenter (center_x cv + a * extent_width cv * pan_sensitivity s)
                                 (center_y cv + - c * extent_height cv * pan_sensitivity s)]
                 else []) @
                (if b \<noteq> 0 then [ZoomByFactor (1 - b * zoom_sensitivity s)] else []) @
                [Refresh])"
  using assms
  by (simp add: handle_movement_def inversions_swap_irrelevant apply_swap_def navigate_def Let_def
      del: mult_eq_0_iff)

lemma handle_movement_unswapped:
  assumes "apply_deadzone (deadzone s) (apply_inversions s (x, y, z)) = (a, b, c)"
  shows "handle_movement (s\<lparr>swap_yz := False\<rparr>) cv x y z =
          (if a = 0 \<and> b = 0 \<and> c = 0 then [] else navigate s cv (a, b, c))"
  using assms
  by (simp add: handle_movement_def inversions_swap_irrelevant apply_swap_def navigate_def Let_def
      del: mult_eq_0_iff)

text \<open>C7: with \<^verbatim>\<open>swap_yz\<close> set, y and z are exchanged after the dead zone: the axes
  that reach the pan and zoom computation are those of the unswapped configuration with y
  and z exchanged; the calls are those of the unswapped configuration on the input with y
  and z exchanged (and their inversion flags with them); and, written out, the pan in y
  comes from the former z and the zoom factor from the former y.\<close>

theorem swap_exchanges_roles:
  "final_axes (s\<lparr>swap_yz := True\<rparr>) x y z =
     (case final_axes (s\<lparr>swap_yz := False\<rparr>) x y z of (a, b, c) \<Rightarrow> (a, c, b)) \<and>
   handle_movement (s\<lparr>swap_yz := True\<rparr>) cv x y z =
     handle_movement (s\<lparr>swap_yz := False, invert_y := invert_z s, invert_z := invert_y s\<rparr>) cv x z y \<and>
   (case apply_deadzone (deadzone s) (apply_inversions s (x, y, z)) of
      (a, b, c) \<Rightarrow>
        handle_movement (s\<lparr>swap_yz := True\<rparr>) cv x y z =
          (if a = 0 \<and> b = 0 \<and> c = 0 then []
           else (if a * extent_width cv * pan_sensitivity s \<noteq> 0 \<or>
                    - c * extent_height cv * pan_sensitivity s \<noteq> 0
                 then [SetCenter (center_x cv + a * extent_width cv * pan_sensitivity s)
                                 (center_y cv + - c * extent_height cv * pan_sensitivity s)]
                 else []) @
                (if b \<noteq> 0 then [ZoomByFactor (1 - b * zoom_sensitivity s)] else []) @
                [Refresh]))"
proof -
  obtain a b c where abc: "apply_deadzone (deadzone s) (apply_inversions s (x, y, z)) = (a, b, c)"
    by (cases "apply_deadzone (deadzone s) (apply_inversions s (x, y, z))") blast
  have 1: "final_axes (s\<lparr>swap_yz := True\<rparr>) x y z =
     (case final_axes (s\<lparr>swap_yz := False\<rparr>) x y z of (a, b, c) \<Rightarrow> (a, c, b))"
    by (simp add: final_axes_def apply_swap_def inversions_swap_irrelevant abc)
  let ?s' = "s\<lparr>invert_y := invert_z s, invert_z := invert_y s\<rparr>"
  have acb: "apply_deadzone (deadzone ?s') (apply_inversions ?s' (x, z, y)) = (a, c, b)"
    using abc by (simp add: apply_deadzone_def apply_inversions_def)
  have "handle_movement (?s'\<lparr>swap_yz := False\<rparr>) cv x z y =
          (if a = 0 \<and> c = 0 \<and> b = 0 then [] else navigate ?s' cv (a, c, b))"
    by (rule handle_movement_unswapped [OF acb])
  moreover have "?s'\<lparr>swap_yz := False\<rparr> =
      s\<lparr>swap_yz := False, invert_y := invert_z s, invert_z := invert_y s\<rparr>"
    by simp
  ultimately have 2: "handle_movement (s\<lparr>swap_yz := True\<rparr>) cv x y z =
     handle_movement (s\<lparr>swap_yz := False, invert_y := invert_z s, invert_z := invert_y s\<rparr>) cv x z y"
    using handle_movement_swapped [OF abc, of cv]
    by (simp add: navigate_def Let_def conj_ac del: mult_eq_0_iff)
  have 3: "case apply_deadzone (deadzone s) (apply_inversions s (x, y, z)) of
      (a, b, c) \<Rightarrow>
        handle_movement (s\<lparr>swap_yz := True\<rparr>) cv x y z =
          (if a = 0 \<and> b = 0 \<and> c = 0 then []
           else (if a * extent_width cv * pan_sensitivity s \<noteq> 0 \<or>
                    - c * extent_height cv * pan_sensitivity s \<noteq> 0
                 then [SetCenter (center_x cv + a * extent_width cv * pan_sensitivity s)
                                 (center_y cv + - c * extent_height cv * pan_sensitivity s)]
                 else []) @
                (if b \<noteq> 0 then [ZoomByFactor (1 - b * zoom_sensitivity s)] else []) @
                [Refresh])"
    unfolding abc prod.case by (rule handle_movement_swapped [OF abc])
  from 1 2 3 show ?thesis by (intro conjI)
qed

theorem swap_exchanges_roles_witness:
  "handle_movement (cfg\<lparr>swap_yz := True\<rparr>) view (1 / 5) (1 / 2) (- (3 / 10)) =
     [SetCenter 9 (83 / 4), ZoomByFactor (199 / 200), Refresh] \<and>
   handle_movement (cfg\<lparr>swap_yz := False, invert_y := invert_z cfg, invert_z := invert_y cfg\<rparr>)
       view (1 / 5) (- (3 / 10)) (1 / 2) =
     [SetCenter 9 (83 / 4), ZoomByFactor (199 / 200), Refresh]"
proof -
  note t = swap_exchanges_roles [of cfg "1 / 5" "1 / 2" "- (3 / 10)" view]
  have a: "apply_deadzone (deadzone cfg) (apply_inversions cfg (1 / 5, 1 / 2, - (3 / 10))) = (- (1 / 5), 1 / 2, - (3 / 10))"
    by (simp add: cfg_def apply_deadzone_def apply_inversions_def)
  from t have t2: "handle_movement (cfg\<lparr>swap_yz := True\<rparr>) view (1 / 5) (1 / 2) (- (3 / 10)) =
     handle_movement (cfg\<lparr>swap_yz := False, invert_y := invert_z cfg, invert_z := invert_y cfg\<rparr>)
       view (1 / 5) (- (3 / 10)) (1 / 2)"
    by (rule conjunct1 [OF conjunct2])
  from t have "case apply_deadzone (deadzone cfg) (apply_inversions cfg (1 / 5, 1 / 2, - (3 / 10))) of
      (a, b, c) \<Rightarrow>
        handle_movement (cfg\<lparr>swap_yz := True\<rparr>) view (1 / 5) (1 / 2) (- (3 / 10)) =
          (if a = 0 \<and> b = 0 \<and> c = 0 then []
           else (if a * extent_width view * pan_sensitivity cfg \<noteq> 0 \<or>
                    - c * extent_height view * pan_sensitivity cfg \<noteq> 0
                 then [SetCenter (center_x view + a * extent_width view * pan_sensitivity cfg)
                                 (center_y view + - c * extent_height view * pan_sensitivity cfg)]
                 else []) @
                (if b \<noteq> 0 then [ZoomByFactor (1 - b * zoom_sensitivity cfg)] else []) @
                [Refresh])"
    by (rule conjunct2 [OF conjunct2])
  then have t3: "handle_movement (cfg\<lparr>swap_yz := True\<rparr>) view (1 / 5) (1 / 2) (- (3 / 10)) =
     [SetCenter 9 (83 / 4), ZoomByFactor (199 / 200), Refresh]"
    unfolding a by (simp add: cfg_def view_def)
  from t2 t3 show ?thesis by simp
qed

text \<open>C8: the canvas centre is set (once) exactly when one of the two pan distances is not
  zero, and the canvas is zoomed (once, by \<open>1 - z * zoom_sensitivity\<close>) exactly when z after
  the swap is not zero; neither depends on the other.\<close>

theorem pan_zoom_independent:
  "filter is_set_center (handle_movement s cv x y z) =
     (if pan_dx s cv x y z \<noteq> 0 \<or> pan_dy s cv x y z \<noteq> 0
      then [SetCenter (center_x cv + pan_dx s cv x y z) (center_y cv + pan_dy s cv x y z)]
      else []) \<and>
   filter is_zoom (handle_movement s cv x y z) =
     (case final_axes s x y z of
        (fx, fy, fz) \<Rightarrow> if fz \<noteq> 0 then [ZoomByFactor (1 - fz * zoom_sensitivity s)] else [])"
proof (cases "apply_deadzone (deadzone s) (apply_inversions s (x, y, z)) = (0, 0, 0)")
  case True
  then have "final_axes s x y z = (0, 0, 0)"
    by (simp add: final_axes_def apply_swap_def)
  with True show ?thesis
    by (simp add: handle_movement_axes pan_dx_def pan_dy_def)
next
  case False
  then show ?thesis
    by (simp add: handle_movement_axes pan_dx_def pan_dy_def navigate_def Let_def
        split: prod.splits)
qed

theorem pan_zoom_independent_witness:
  "filter is_set_center (handle_movement cfg view 0 (1 / 2) 0) = [] \<and>
   filter is_zoom (handle_movement cfg view 0 (1 / 2) 0) = [ZoomByFactor (199 / 200)] \<and>
   filter is_set_center (handle_movement cfg view 0 0 (- (3 / 10))) = [SetCenter 10 (83 / 4)] \<and>
   filter is_zoom (handle_movement cfg view 0 0 (- (3 / 10))) = []"
proof -
  have f: "final_axes cfg 0 (1 / 2) 0 = (0, 0, 1 / 2)" "final_axes cfg 0 0 (- (3 / 10)) = (0, - (3 / 10), 0)"
    by (simp_all add: final_axes_def cfg_def apply_swap_def apply_deadzone_def apply_inversions_def)
  have c: "pan_sensitivity cfg = 0.005" "zoom_sensitivity cfg = 0.01"
    by (simp_all add: cfg_def)
  show ?thesis
    using pan_zoom_independent [of cfg view 0 "1 / 2" 0]
      pan_zoom_independent [of cfg view 0 0 "- (3 / 10)"]
    by (simp add: pan_dx_def pan_dy_def f c view_def)
qed

subsection \<open>Motion reader\<close>

lemma errors_of_append: "errors_of (a @ b) = errors_of a @ errors_of b"
  by (induction a rule: errors_of.induct) simp_all

lemma signals_of_append: "signals_of (a @ b) = signals_of a @ signals_of b"
  by (induction a rule: signals_of.induct) simp_all

lemma reads_of_append: "reads_of (a @ b) = reads_of a + reads_of b"
  by (induction a rule: reads_of.induct) simp_all

lemma process_packet_events:
  "errors_of (fst (process_packet data n)) = [] \<and> reads_of (fst (process_packet data n)) = 0"
  by (simp add: process_packet_def Let_def split: prod.splits)

lemma read_loop_no_errors: "errors_of (fst (read_loop ps n)) = []"
proof (induction ps n rule: read_loop.induct)
  case (4 data ps read_count)
  obtain evs n' where p: "process_packet data read_count = (evs, n')"
    by (cases "process_packet data read_count")
  obtain rest c where r: "read_loop ps n' = (rest, c)" by (cases "read_loop ps n'")
  from 4 [OF p [symmetric]] r have "errors_of rest = []" by simp
  moreover from process_packet_events [of data read_count] p have "errors_of evs = []" by simp
  ultimately show ?case by (simp add: p r errors_of_append)
qed (simp_all split: exn.splits)

lemma read_loop_failure:
  "list_all is_read_returns pre \<Longrightarrow>
     reads_of (fst (read_loop (pre @ ReadRaises e # post) n)) = length pre + 1 \<and>
     snd (read_loop (pre @ ReadRaises e # post) n) =
       (case e of Exc m \<Rightarrow> Returned | BaseExc m \<Rightarrow> Raised e)"
proof (induction pre arbitrary: n)
  case Nil
  then show ?case by (simp split: exn.splits)
next
  case (Cons p pre)
  then obtain data where d: "p = ReadReturns data" by (cases p) simp_all
  obtain evs n' where pp: "process_packet data n = (evs, n')"
    by (cases "process_packet data n")
  obtain rest c where r: "read_loop (pre @ ReadRaises e # post) n' = (rest, c)"
    by (cases "read_loop (pre @ ReadRaises e # post) n'")
  from Cons have "list_all is_read_returns pre" by simp
  from Cons.IH [OF this, of n']
  have ih: "reads_of rest = length pre + 1"
    "c = (case e of Exc m \<Rightarrow> Returned | BaseExc m \<Rightarrow> Raised e)"
    unfolding r by simp_all
  from process_packet_events [of data n] pp have "reads_of evs = 0" by simp
  with ih show ?case
    by (simp add: d pp r reads_of_append)
qed

lemma read_loop_failure_printed:
  "list_all is_read_returns pre \<Longrightarrow>
     Print (ReadErrorLine m) \<in> set (fst (read_loop (pre @ ReadRaises (Exc m) # post) n))"
proof (induction pre arbitrary: n)
  case Nil
  then show ?case by simp
next
  case (Cons p pre)
  then obtain data where d: "p = ReadReturns data" by (cases p) simp_all
  obtain evs n' where pp: "process_packet data n = (evs, n')"
    by (cases "process_packet data n")
  obtain rest c where r: "read_loop (pre @ ReadRaises (Exc m) # post) n' = (rest, c)"
    by (cases "read_loop (pre @ ReadRaises (Exc m) # post) n'")
  from Cons have "list_all is_read_returns pre" by simp
  from Cons.IH [OF this, of n'] have "Print (ReadErrorLine m) \<in> set rest"
    unfolding r by simp
  then show ?case by (simp add: d pp r)
qed

lemma run_body_reading:
  assumes "reaches_reading env"
  shows "\<exists>tr0. run_body env =
           (tr0 @ fst (read_loop (polls env) 0), True, snd (read_loop (polls env) 0)) \<and>
         errors_of tr0 = [] \<and> reads_of tr0 = 0"
proof -
  from assms obtain all_devices device_info where
    e: "enumerate_result env = Inr all_devices"
      "find_spacemouse_device all_devices = Some device_info"
      "device_result env = None" "open_result env = None" "set_nonblocking_result env = None"
    by (auto simp: reaches_reading_def split: sum.splits)
  show ?thesis
    by (simp add: run_body_def e Let_def split: prod.splits)
qed

text \<open>What \<^verbatim>\<open>run\<close> does whenever a read raises in the reading state, after any number
  of reads that returned: the worker finishes and the failing read is the last read, but
  the handler inside the loop only prints the read error, so no \<open>Error\<close> message reaches
  the error channel (an exception that is not of class \<^verbatim>\<open>Exception\<close> leaves \<^verbatim>\<open>run\<close>).\<close>

theorem read_failure_silent:
  assumes "reaches_reading env" "polls env = pre @ ReadRaises e # post"
    "list_all is_read_returns pre"
  shows "finished (run env) \<and>
         reads_of (trace (run env)) = length pre + 1 \<and>
         errors_of (trace (run env)) = [] \<and>
         (case e of
            Exc m \<Rightarrow> Print (ReadErrorLine m) \<in> set (trace (run env)) \<and> propagated (run env) = None
          | BaseExc m \<Rightarrow> propagated (run env) = Some e)"
proof -
  from run_body_reading [OF assms(1)] obtain tr0 where
    b: "run_body env = (tr0 @ fst (read_loop (polls env) 0), True, snd (read_loop (polls env) 0))"
    and t: "errors_of tr0 = []" "reads_of tr0 = 0"
    by blast
  note f = read_loop_failure [OF assms(3), of e post 0]
  note g = read_loop_failure_printed [OF assms(3), of _ post 0]
  note n = read_loop_no_errors [of "polls env" 0]
  have fb: "errors_of (finally_block env True) = [] \<and> reads_of (finally_block env True) = 0"
    by (simp add: finally_block_def split: option.splits)
  show ?thesis
  proof (cases e)
    case (Exc m)
    with f g [of m] n t fb show ?thesis
      by (simp add: run_def b assms(2) errors_of_append reads_of_append Let_def)
  next
    case (BaseExc m)
    with f n t fb show ?thesis
      by (simp add: run_def b assms(2) errors_of_append reads_of_append)
  qed
qed

lemma keyboard_skipped: "is_3dconnexion keyboard = False"
  by (simp add: is_3dconnexion_policy keyboard_no_match)

lemma navigator_taken: "is_3dconnexion navigator"
  by (simp add: is_3dconnexion_policy navigator_match)

lemma navigator_fields:
  "vendor_id navigator = 1" "product_id navigator = 2"
  "product_string navigator = Some ''SpaceNavigator''" "manufacturer_string navigator = None"
  by (simp_all add: navigator_def)

lemma parse_sample: "parse_spacemouse_data [1, 100, 0, 0, 0, 0, 0] = (2 / 7, 0, 0)"
  by (simp add: parse_spacemouse_data_def bytes_to_int16_def)

lemma read_failure_env_trace:
  "run read_failure_env =
     \<lparr>trace =
        [Call HidEnumerate, Print (FoundLine ''SpaceNavigator''),
         Print (ManufacturerLine ''Unknown''), Print (VidPidLine 1 2),
         Print (OpeningLine ''SpaceNavigator''), Print (VidLine 1), Print (PidLine 2),
         Call HidDevice, Call (HidOpen 1 2), Call (HidSetNonblocking 1), Print OpenedLine,
         Call (HidRead 64), Print (PacketLine 1 [1, 100, 0, 0, 0, 0, 0]),
         Emit (Movement (2 / 7) 0 0), Sleep,
         Call (HidRead 64), Print (ReadErrorLine ''read failed''), Print (StoppedLine 1),
         Call HidClose, Print ClosedLine],
      finished = True, propagated = None\<rparr>"
  by (simp add: run_def run_body_def finally_block_def read_failure_env_def keyboard_skipped
      navigator_taken navigator_fields dict_get_def process_packet_def parse_sample Let_def)

lemma read_failure_env_reading: "reaches_reading read_failure_env"
  by (simp add: reaches_reading_def read_failure_env_def keyboard_skipped navigator_taken)

theorem read_failure_silent_witness:
  "reaches_reading read_failure_env \<and>
   polls read_failure_env =
     [ReadReturns [1, 100, 0, 0, 0, 0, 0]] @ ReadRaises (Exc ''read failed'')
       # [ReadReturns [1, 100, 0, 0, 0, 0, 0]] \<and>
   list_all is_read_returns [ReadReturns [1, 100, 0, 0, 0, 0, 0]] \<and>
   finished (run read_failure_env) \<and>
   reads_of (trace (run read_failure_env)) = 2 \<and>
   Print (ReadErrorLine ''read failed'') \<in> set (trace (run read_failure_env)) \<and>
   propagated (run read_failure_env) = None"
proof -
  have p: "polls read_failure_env =
     [ReadReturns [1, 100, 0, 0, 0, 0, 0]] @ ReadRaises (Exc ''read failed'')
       # [ReadReturns [1, 100, 0, 0, 0, 0, 0]]"
    by (simp add: read_failure_env_def)
  have l: "list_all is_read_returns [ReadReturns [1, 100, 0, 0, 0, 0, 0]]" by simp
  from read_failure_silent [OF read_failure_env_reading p l] read_failure_env_reading p l
  show ?thesis by simp
qed

text \<open>C1: a read that raises in the reading state must end the loop and be reported by
  exactly one \<open>Error\<close> message. The code ends the loop but does not report: in
  \<^term>\<open>read_failure_env\<close> the second read raises, the worker finishes, and the number of
  \<open>Error\<close> messages emitted is 0, not 1. The other failure exits of \<^verbatim>\<open>run\<close> (no device
  found, and the outer handler) do emit; the handler inside the loop leaves the emit
  out.\<close>

theorem read_failure_not_reported:
  "reaches_reading read_failure_env \<and>
   polls read_failure_env =
     [ReadReturns [1, 100, 0, 0, 0, 0, 0], ReadRaises (Exc ''read failed''),
      ReadReturns [1, 100, 0, 0, 0, 0, 0]] \<and>
   finished (run read_failure_env) \<and>
   errors_of (trace (run read_failure_env)) = [] \<and>
   length (errors_of (trace (run read_failure_env))) \<noteq> 1"
  by (simp add: read_failure_env_trace read_failure_env_reading)
     (simp add: read_failure_env_def)

lemma run_body_close_irrelevant: "run_body (env\<lparr>close_result := r\<rparr>) = run_body env"
  by (simp add: run_body_def Let_def cong: sum.case_cong option.case_cong)

lemma finally_block_no_open: "\<not> list_ex is_open (finally_block env d)"
  by (simp add: finally_block_def split: option.splits)

lemma run_trace_shape:
  assumes "run_body env = (tr, d, c)"
  shows "finished (run env) \<longleftrightarrow> c \<noteq> StillReading"
    and "c \<noteq> StillReading \<Longrightarrow>
           \<exists>h. trace (run env) = tr @ h @ finally_block env d \<and> \<not> list_ex is_open h"
proof -
  show "finished (run env) \<longleftrightarrow> c \<noteq> StillReading"
    using assms by (simp add: run_def Let_def split: completion.splits exn.splits)
  assume "c \<noteq> StillReading"
  then consider "c = Returned" | m where "c = Raised (Exc m)" | m where "c = Raised (BaseExc m)"
    by (metis completion.exhaust exn.exhaust)
  then show "\<exists>h. trace (run env) = tr @ h @ finally_block env d \<and> \<not> list_ex is_open h"
  proof cases
    case 1
    with assms have "trace (run env) = tr @ [] @ finally_block env d \<and> \<not> list_ex is_open []"
      by (simp add: run_def)
    then show ?thesis by blast
  next
    case 2
    with assms have "trace (run env) =
        tr @ [Print (ErrorLine (''SpaceMouse error: '' @ m)),
              Emit (Error (''SpaceMouse error: '' @ m))] @ finally_block env d \<and>
      \<not> list_ex is_open [Print (ErrorLine (''SpaceMouse error: '' @ m)),
              Emit (Error (''SpaceMouse error: '' @ m))]"
      by (simp add: run_def Let_def)
    then show ?thesis by blast
  next
    case 3
    with assms have "trace (run env) = tr @ [] @ finally_block env d \<and> \<not> list_ex is_open []"
      by (simp add: run_def)
    then show ?thesis by blast
  qed
qed

lemma finally_block_signals: "signals_of (finally_block env d) = []"
  by (simp add: finally_block_def split: option.splits)

lemma is_open_device_set:
  "run_body env = (tr, d, c) \<Longrightarrow> list_ex is_open tr \<Longrightarrow> d"
  by (auto simp: run_body_def Let_def split: sum.splits option.splits prod.splits)

lemma finally_block_close:
  "\<exists>post. finally_block env True = Call HidClose # post \<and> (post = [] \<or> post = [Print ClosedLine])"
  by (simp add: finally_block_def split: option.splits)

text \<open>C9: whenever the worker finishes and \<^verbatim>\<open>open\<close> was called on the device, the
  trace has a \<^verbatim>\<open>close()\<close> call after the \<^verbatim>\<open>open\<close>, followed by nothing but the console line
  of a successful close; and whether \<^verbatim>\<open>close()\<close> returns or raises (\<open>r\<close>) changes neither
  the signals emitted, nor the exception that leaves \<^verbatim>\<open>run\<close>, nor whether the worker
  finishes.\<close>

theorem release_guaranteed:
  "(finished (run env) \<and> list_ex is_open (trace (run env)) \<longrightarrow>
      (\<exists>pre post. trace (run env) = pre @ Call HidClose # post \<and> list_ex is_open pre \<and>
                  (post = [] \<or> post = [Print ClosedLine]))) \<and>
   signals_of (trace (run (env\<lparr>close_result := r\<rparr>))) = signals_of (trace (run env)) \<and>
   propagated (run (env\<lparr>close_result := r\<rparr>)) = propagated (run env) \<and>
   finished (run (env\<lparr>close_result := r\<rparr>)) = finished (run env)"
proof -
  obtain tr d c where b: "run_body env = (tr, d, c)" by (cases "run_body env")
  have 1: "finished (run env) \<and> list_ex is_open (trace (run env)) \<longrightarrow>
      (\<exists>pre post. trace (run env) = pre @ Call HidClose # post \<and> list_ex is_open pre \<and>
                  (post = [] \<or> post = [Print ClosedLine]))"
  proof
    assume a: "finished (run env) \<and> list_ex is_open (trace (run env))"
    with run_trace_shape(1) [OF b] have "c \<noteq> StillReading" by simp
    from run_trace_shape(2) [OF b this] obtain h where
      h: "trace (run env) = tr @ h @ finally_block env d" "\<not> list_ex is_open h"
      by blast
    with a finally_block_no_open [of env d] have o: "list_ex is_open tr" by simp
    with b have d by (rule is_open_device_set)
    from finally_block_close [of env] obtain post where
      p: "finally_block env True = Call HidClose # post" "post = [] \<or> post = [Print ClosedLine]"
      by blast
    from h p \<open>d\<close> o have "trace (run env) = (tr @ h) @ Call HidClose # post \<and>
      list_ex is_open (tr @ h) \<and> (post = [] \<or> post = [Print ClosedLine])"
      by simp
    then show "\<exists>pre post. trace (run env) = pre @ Call HidClose # post \<and> list_ex is_open pre \<and>
                  (post = [] \<or> post = [Print ClosedLine])"
      by blast
  qed
  have 2: "signals_of (trace (run (env\<lparr>close_result := r\<rparr>))) = signals_of (trace (run env)) \<and>
   propagated (run (env\<lparr>close_result := r\<rparr>)) = propagated (run env) \<and>
   finished (run (env\<lparr>close_result := r\<rparr>)) = finished (run env)"
    by (simp add: run_def run_body_close_irrelevant b signals_of_append finally_block_signals Let_def
        split: completion.splits exn.splits)
  from 1 2 show ?thesis by (rule conjI)
qed

lemma stop_env_trace:
  "run stop_env =
     \<lparr>trace =
        [Call HidEnumerate, Print (FoundLine ''SpaceNavigator''),
         Print (ManufacturerLine ''Unknown''), Print (VidPidLine 1 2),
         Print (OpeningLine ''SpaceNavigator''), Print (VidLine 1), Print (PidLine 2),
         Call HidDevice, Call (HidOpen 1 2), Call (HidSetNonblocking 1), Print OpenedLine,
         Call (HidRead 64), Print (PacketLine 1 [1, 100, 0, 0, 0, 0, 0]),
         Emit (Movement (2 / 7) 0 0), Sleep, Print (StoppedLine 1),
         Call HidClose],
      finished = True, propagated = None\<rparr>"
  by (simp add: run_def run_body_def finally_block_def stop_env_def keyboard_skipped
      navigator_taken navigator_fields dict_get_def process_packet_def parse_sample Let_def)

theorem release_guaranteed_witness:
  "finished (run stop_env) \<and> list_ex is_open (trace (run stop_env)) \<and>
   close_result stop_env = Some (Exc ''close failed'') \<and>
   (\<exists>pre post. trace (run stop_env) = pre @ Call HidClose # post \<and> list_ex is_open pre \<and>
               (post = [] \<or> post = [Print ClosedLine])) \<and>
   signals_of (trace (run (stop_env\<lparr>close_result := None\<rparr>))) = [Movement (2 / 7) 0 0] \<and>
   propagated (run (stop_env\<lparr>close_result := None\<rparr>)) = None"
proof -
  have h: "finished (run stop_env) \<and> list_ex is_open (trace (run stop_env))"
    by (simp add: stop_env_trace)
  have c: "close_result stop_env = Some (Exc ''close failed'')"
    by (simp add: stop_env_def)
  have s: "signals_of (trace (run stop_env)) = [Movement (2 / 7) 0 0]"
    "propagated (run stop_env) = None"
    by (simp_all add: stop_env_trace)
  from release_guaranteed [of stop_env None] h c s show ?thesis by simp
qed

subsection \<open>Settings\<close>

lemma sb_round_values:
  "sb_round 2 (1 / 1000) = 0" "sb_round 2 (1 / 10) = 1 / 10" "sb_round 3 (1 / 1000) = 1 / 1000"
  "sb_round 3 (1 / 10) = 1 / 10" "sb_round 3 (1 / 200) = 1 / 200" "sb_round 3 (1 / 100) = 1 / 100"
  "sb_round 2 0 = 0" "sb_round 2 (1 / 5) = 1 / 5" "sb_round 2 (1 / 20) = 1 / 20"
  "sb_round 3 0 = 0"
  by (simp_all add: sb_round_def round_def)

lemma pan_spin_setup:
  "setValue 0.005 (setDecimals 3 (setSingleStep 0.001 (setRange 0.001 0.1 new_spinbox))) =
     \<lparr>sb_actual_min = 0.001, sb_actual_max = 0.1, sb_minimum = 0.001, sb_maximum = 0.1,
      sb_single_step = 0.001, sb_decimals = 3, sb_value = 0.005\<rparr>"
  by (simp add: setValue_def setDecimals_def setSingleStep_def setRange_def new_spinbox_def
      sb_bound_def sb_round_values Let_def)

lemma zoom_spin_setup:
  "setValue 0.01 (setDecimals 3 (setSingleStep 0.001 (setRange 0.001 0.1 new_spinbox))) =
     \<lparr>sb_actual_min = 0.001, sb_actual_max = 0.1, sb_minimum = 0.001, sb_maximum = 0.1,
      sb_single_step = 0.001, sb_decimals = 3, sb_value = 0.01\<rparr>"
  by (simp add: setValue_def setDecimals_def setSingleStep_def setRange_def new_spinbox_def
      sb_bound_def sb_round_values Let_def)

lemma deadzone_spin_setup:
  "setValue 0.05 (setDecimals 2 (setSingleStep 0.01 (setRange 0.0 0.2 new_spinbox))) =
     \<lparr>sb_actual_min = 0, sb_actual_max = 0.2, sb_minimum = 0, sb_maximum = 0.2,
      sb_single_step = 0.01, sb_decimals = 2, sb_value = 0.05\<rparr>"
  by (simp add: setValue_def setDecimals_def setSingleStep_def setRange_def new_spinbox_def
      sb_bound_def sb_round_values Let_def)

lemma setup_ui_ok: "dialog_ok setup_ui"
  unfolding setup_ui_def pan_spin_setup zoom_spin_setup deadzone_spin_setup
  by (simp add: dialog_ok_def spin_ok_def)

lemma setValue_ok: "lo \<le> hi \<Longrightarrow> spin_ok lo hi sb \<Longrightarrow> spin_ok lo hi (setValue v sb)"
  by (auto simp: spin_ok_def setValue_def sb_bound_def)

lemma stepBy_ok: "lo \<le> hi \<Longrightarrow> spin_ok lo hi sb \<Longrightarrow> spin_ok lo hi (stepBy n sb)"
  by (simp add: stepBy_def setValue_ok)

lemma set_settings_ok: "dialog_ok d \<Longrightarrow> dialog_ok (set_settings s d)"
  by (simp add: dialog_ok_def set_settings_def setValue_ok)

lemma dialog_step_ok: "dialog_ok d \<Longrightarrow> dialog_ok (dialog_step d op)"
  by (cases op) (simp_all add: dialog_ok_def set_settings_def reset_to_defaults_def
      setValue_ok stepBy_ok)

lemma foldl_dialog_ok: "dialog_ok d \<Longrightarrow> dialog_ok (foldl dialog_step d ops)"
  by (induction ops arbitrary: d) (simp_all add: dialog_step_ok)

lemma get_settings_range: "dialog_ok d \<Longrightarrow> widget_range (get_settings d)"
  by (simp add: dialog_ok_def spin_ok_def widget_range_def get_settings_def)

lemma widget_range_in_range: "widget_range s \<Longrightarrow> config_in_range 0.1 s"
  by (simp add: widget_range_def config_in_range_def)

lemma load_save: "load_settings (save_settings s store) = s"
  by (simp add: load_settings_def save_settings_def value_bool_def value_float_def)

lemma load_empty: "load_settings Map.empty = default_settings"
  by (simp add: load_settings_def default_settings_def value_bool_def value_float_def)

text \<open>C3, as the claim states it, fails for the value produced by loading stored
  settings: \<^verbatim>\<open>load_settings\<close> hands on what the store holds, here a pan sensitivity of
  \<open>-1\<close>, which is not strictly positive.\<close>

theorem load_unvalidated:
  "pan_sensitivity (load_settings bad_store) = - 1 \<and>
   \<not> 0 < pan_sensitivity (load_settings bad_store)"
  by (simp add: load_settings_def bad_store_def value_float_def)

text \<open>C3, as the code has it: the read-back of the dialog after any sequence of dialog
  operations, and so the settings that \<^verbatim>\<open>show_settings\<close> installs on acceptance, have both
  sensitivities in \<open>[0.001, 0.1]\<close> and the dead zone in \<open>[0, 0.2]\<close>, hence strictly positive
  and bounded sensitivities and a dead zone in \<open>[0, 1)\<close>. \<^verbatim>\<open>load_settings\<close> does not
  validate: it returns what \<^verbatim>\<open>save_settings\<close> stored, and the defaults on an empty store.\<close>

theorem dialog_readback_in_range:
  "widget_range (get_settings (dialog_run ops)) \<and>
   config_in_range 0.1 (get_settings (dialog_run ops)) \<and>
   widget_range (show_settings s ops True) \<and>
   config_in_range 0.1 (show_settings s ops True) \<and>
   load_settings (save_settings s store) = s \<and>
   load_settings Map.empty = default_settings"
proof -
  have 1: "widget_range (get_settings (dialog_run ops))"
    unfolding dialog_run_def by (intro get_settings_range foldl_dialog_ok setup_ui_ok)
  have 2: "widget_range (show_settings s ops True)"
    unfolding show_settings_def Let_def
    by (simp add: get_settings_range foldl_dialog_ok set_settings_ok setup_ui_ok)
  from 1 2 show ?thesis
    by (simp add: widget_range_in_range load_save load_empty)
qed

theorem dialog_readback_in_range_witness:
  "get_settings (dialog_run [TypePan 7, StepZoom (- 100), SetSettings (load_settings bad_store),
       TypeDeadzone (123 / 1000)]) =
     \<lparr>invert_x = False, invert_y = False, invert_z = False, swap_yz = True,
      pan_sensitivity = 1 / 1000, zoom_sensitivity = 1 / 100, deadzone = 3 / 25\<rparr> \<and>
   widget_range (get_settings (dialog_run [TypePan 7, StepZoom (- 100),
       SetSettings (load_settings bad_store), TypeDeadzone (123 / 1000)])) \<and>
   load_settings (save_settings default_settings bad_store) = default_settings"
proof -
  have l: "load_settings bad_store = default_settings\<lparr>pan_sensitivity := - 1\<rparr>"
    by (simp add: load_settings_def bad_store_def value_float_def value_bool_def
        default_settings_def)
  have r: "sb_round 3 7 = 7" "sb_round 3 (- 1) = - 1" "sb_round 3 (- (9 / 100)) = - (9 / 100)"
    "sb_round 3 (1 / 100) = 1 / 100" "sb_round 2 (1 / 20) = 1 / 20"
    "sb_round 2 (123 / 1000) = 3 / 25"
    by (simp_all add: sb_round_def round_def)
  have "get_settings (dialog_run [TypePan 7, StepZoom (- 100), SetSettings (load_settings bad_store),
       TypeDeadzone (123 / 1000)]) =
     \<lparr>invert_x = False, invert_y = False, invert_z = False, swap_yz = True,
      pan_sensitivity = 1 / 1000, zoom_sensitivity = 1 / 100, deadzone = 3 / 25\<rparr>"
    unfolding dialog_run_def setup_ui_def pan_spin_setup zoom_spin_setup deadzone_spin_setup l
    by (simp add: get_settings_def set_settings_def setValue_def stepBy_def sb_bound_def r
        default_settings_def)
  with dialog_readback_in_range [of "[TypePan 7, StepZoom (- 100),
       SetSettings (load_settings bad_store), TypeDeadzone (123 / 1000)]" default_settings bad_store]
  show ?thesis by simp
qed

end
